theory Spec2Isabelle
  imports Complex_Main
begin

section \<open>The values a type guard can receive\<close>

text \<open>
  The four type guards of \<^verbatim>\<open>src/index.ts\<close> take a parameter of type \<^verbatim>\<open>unknown\<close>:
  any JavaScript value. A value is a primitive or a reference to an object in the
  store; objects are reached through references, so an object may refer to itself.
\<close>

type_synonym addr = nat

datatype jsnum = NaN | Infinity bool | Finite rat

datatype jsval =
    JUndefined
  | JNull
  | JBoolean bool
  | JNumber jsnum
  | JBigInt int
  | JString string
  | JSymbol nat
  | JRef addr

text \<open>
  A property is a data property holding a value, or an accessor property whose getter
  (when it has one) is user code, named here by a number.
\<close>

datatype property = Data jsval | Accessor "nat option"

text \<open>
  \<open>props o k\<close> is the property that a lookup of the key \<open>k\<close> finds on the object: its
  own property, else the nearest one on its prototype chain. Both \<^verbatim>\<open>k in o\<close> and the read
  \<^verbatim>\<open>o.k\<close> resolve the key this way. \<open>kind\<close> tells arrays and functions from other
  objects. Proxy objects are not modelled.
\<close>

datatype objkind = OrdinaryObject | ArrayObject | FunctionObject

record jsobject =
  kind :: objkind
  props :: "string \<Rightarrow> property option"

type_synonym heap = "addr \<Rightarrow> jsobject"

text \<open>
  An evaluation either completes with a value or throws, and may change the store.
  \<open>TypeError\<close> is the error the language raises itself; \<open>Thrown v\<close> is a value
  thrown by user code.
\<close>

datatype exn = TypeError | Thrown jsval

type_synonym 'a js = "heap \<Rightarrow> (exn + 'a) \<times> heap"

text \<open>The getters: the code of getter \<open>g\<close>, run with a receiver in a store.\<close>

type_synonym code = "nat \<Rightarrow> jsval \<Rightarrow> jsval js"

definition js_ret :: "'a \<Rightarrow> 'a js" where
  "js_ret x = (\<lambda>h. (Inr x, h))"

definition js_throw :: "exn \<Rightarrow> 'a js" where
  "js_throw e = (\<lambda>h. (Inl e, h))"

definition js_bind :: "'a js \<Rightarrow> ('a \<Rightarrow> 'b js) \<Rightarrow> 'b js" where
  "js_bind m f = (\<lambda>h. case m h of (Inl e, h') \<Rightarrow> (Inl e, h') | (Inr x, h') \<Rightarrow> f x h')"

text \<open>An expression that only looks at the store.\<close>

definition js_pure :: "(heap \<Rightarrow> 'a) \<Rightarrow> 'a js" where
  "js_pure f = (\<lambda>h. (Inr (f h), h))"

text \<open>\<^verbatim>\<open>a && b\<close> on booleans: \<open>b\<close> is evaluated only when \<open>a\<close> gave true.\<close>

definition js_and :: "bool js \<Rightarrow> bool js \<Rightarrow> bool js" where
  "js_and a b = js_bind a (\<lambda>x. if x then b else js_ret False)"

text \<open>\<^verbatim>\<open>typeof v\<close>: \<^verbatim>\<open>typeof null\<close> is \<^verbatim>\<open>'object'\<close>, and a function is not.\<close>

fun js_typeof :: "heap \<Rightarrow> jsval \<Rightarrow> string" where
  "js_typeof h JUndefined = ''undefined''"
| "js_typeof h JNull = ''object''"
| "js_typeof h (JBoolean b) = ''boolean''"
| "js_typeof h (JNumber n) = ''number''"
| "js_typeof h (JBigInt i) = ''bigint''"
| "js_typeof h (JString s) = ''string''"
| "js_typeof h (JSymbol y) = ''symbol''"
| "js_typeof h (JRef a) = (if kind (h a) = FunctionObject then ''function'' else ''object'')"

text \<open>\<^verbatim>\<open>k in v\<close>: a \<^verbatim>\<open>TypeError\<close> when \<open>v\<close> is not an object.\<close>

fun js_in :: "string \<Rightarrow> jsval \<Rightarrow> bool js" where
  "js_in k (JRef a) = js_pure (\<lambda>h. props (h a) k \<noteq> None)"
| "js_in k v = js_throw TypeError"

text \<open>
  The read \<^verbatim>\<open>v.k\<close>. On an object: the value of a data property, the result of running
  the getter of an accessor property, \<^verbatim>\<open>undefined\<close> when the key is not found or the
  accessor has no getter. On \<^verbatim>\<open>null\<close> and \<^verbatim>\<open>undefined\<close>: a \<^verbatim>\<open>TypeError\<close>. On another
  primitive the key is looked up on the wrapper prototype, which defines none of the
  keys the guards read, so the read gives \<^verbatim>\<open>undefined\<close>.
\<close>

fun js_get :: "code \<Rightarrow> jsval \<Rightarrow> string \<Rightarrow> jsval js" where
  "js_get G (JRef a) k =
     (\<lambda>h. case props (h a) k of
             None \<Rightarrow> js_ret JUndefined h
           | Some (Data v) \<Rightarrow> js_ret v h
           | Some (Accessor None) \<Rightarrow> js_ret JUndefined h
           | Some (Accessor (Some g)) \<Rightarrow> G g (JRef a) h)"
| "js_get G JUndefined k = js_throw TypeError"
| "js_get G JNull k = js_throw TypeError"
| "js_get G v k = js_ret JUndefined"

text \<open>\<^verbatim>\<open>Array.isArray(v)\<close>.\<close>

fun Array_isArray :: "heap \<Rightarrow> jsval \<Rightarrow> bool" where
  "Array_isArray h (JRef a) = (kind (h a) = ArrayObject)"
| "Array_isArray h v = False"

section \<open>The type guards\<close>

text \<open>
  Each guard is one chain of \<^verbatim>\<open>&&\<close>, which associates to the left, in the order of
  the source.
\<close>

definition isExercise :: "code \<Rightarrow> jsval \<Rightarrow> bool js" where
  "isExercise G obj =
     js_and (js_and (js_and (js_and (js_and (js_and
       (js_pure (\<lambda>h. js_typeof h obj = ''object''))
       (js_pure (\<lambda>h. obj \<noteq> JNull)))
       (js_in ''id'' obj))
       (js_in ''title'' obj))
       (js_in ''starterCode'' obj))
       (js_bind (js_get G obj ''id'') (\<lambda>v. js_pure (\<lambda>h. js_typeof h v = ''string''))))
       (js_bind (js_get G obj ''title'') (\<lambda>v. js_pure (\<lambda>h. js_typeof h v = ''string'')))"

definition isTestResult :: "code \<Rightarrow> jsval \<Rightarrow> bool js" where
  "isTestResult G obj =
     js_and (js_and (js_and (js_and (js_and (js_and
       (js_pure (\<lambda>h. js_typeof h obj = ''object''))
       (js_pure (\<lambda>h. obj \<noteq> JNull)))
       (js_in ''passed'' obj))
       (js_in ''output'' obj))
       (js_in ''testCases'' obj))
       (js_bind (js_get G obj ''passed'') (\<lambda>v. js_pure (\<lambda>h. js_typeof h v = ''boolean''))))
       (js_bind (js_get G obj ''testCases'') (\<lambda>v. js_pure (\<lambda>h. Array_isArray h v)))"

definition isAPIResponse :: "code \<Rightarrow> jsval \<Rightarrow> bool js" where
  "isAPIResponse G obj =
     js_and (js_and (js_and
       (js_pure (\<lambda>h. js_typeof h obj = ''object''))
       (js_pure (\<lambda>h. obj \<noteq> JNull)))
       (js_in ''success'' obj))
       (js_bind (js_get G obj ''success'') (\<lambda>v. js_pure (\<lambda>h. js_typeof h v = ''boolean'')))"

definition isCodeExecutionResult :: "code \<Rightarrow> jsval \<Rightarrow> bool js" where
  "isCodeExecutionResult G obj =
     js_and (js_and (js_and (js_and (js_and
       (js_pure (\<lambda>h. js_typeof h obj = ''object''))
       (js_pure (\<lambda>h. obj \<noteq> JNull)))
       (js_in ''success'' obj))
       (js_in ''output'' obj))
       (js_in ''executionTime'' obj))
       (js_bind (js_get G obj ''success'') (\<lambda>v. js_pure (\<lambda>h. js_typeof h v = ''boolean'')))"

section \<open>What the statements about the guards speak of\<close>

text \<open>What \<^verbatim>\<open>k in v\<close> reports on an object; no key is present on a value that is not one.\<close>

fun has_property :: "heap \<Rightarrow> jsval \<Rightarrow> string \<Rightarrow> bool" where
  "has_property h (JRef a) k = (props (h a) k \<noteq> None)"
| "has_property h v k = False"


text \<open>
  The type of a field as a read finds it: what \<^verbatim>\<open>typeof\<close> and \<^verbatim>\<open>Array.isArray\<close> report on
  the value that the read \<^verbatim>\<open>v.k\<close> gives (\<open>None\<close> when the read throws), and the store that
  the read leaves.
\<close>

definition read_type :: "code \<Rightarrow> jsval \<Rightarrow> string \<Rightarrow> heap \<Rightarrow> (string \<times> bool) option \<times> heap" where
  "read_type G obj k h =
     (case js_get G obj k h of
        (Inl e, h') \<Rightarrow> (None, h')
      | (Inr v, h') \<Rightarrow> (Some (js_typeof h' v, Array_isArray h' v), h'))"

text \<open>The types of several fields, read one after the other.\<close>

fun read_types :: "code \<Rightarrow> jsval \<Rightarrow> string list \<Rightarrow> heap \<Rightarrow> (string \<times> bool) option list" where
  "read_types G obj [] h = []"
| "read_types G obj (k # ks) h =
     fst (read_type G obj k h) # read_types G obj ks (snd (read_type G obj k h))"

text \<open>
  The top level of an input, as far as a schema goes: what \<^verbatim>\<open>typeof\<close> says of it, whether
  it is \<^verbatim>\<open>null\<close>, which of the required keys \<open>req\<close> are present, and the types of the
  type-checked fields \<open>typed\<close>.
\<close>

definition top_level ::
  "code \<Rightarrow> heap \<Rightarrow> jsval \<Rightarrow> string list \<Rightarrow> string list
     \<Rightarrow> string \<times> bool \<times> bool list \<times> (string \<times> bool) option list" where
  "top_level G h obj req typed =
     (js_typeof h obj, obj = JNull, map (has_property h obj) req, read_types G obj typed h)"


section \<open>Sample inputs\<close>

text \<open>
  The samples list the properties an object literal gives; the properties inherited from
  \<^verbatim>\<open>Object.prototype\<close> and \<^verbatim>\<open>Array.prototype\<close>, none of which a guard looks up, are left
  out.
\<close>

definition plain_object :: "(string \<Rightarrow> property option) \<Rightarrow> jsobject" where
  "plain_object ps = \<lparr>kind = OrdinaryObject, props = ps\<rparr>"

definition array_object :: "(string \<Rightarrow> property option) \<Rightarrow> jsobject" where
  "array_object ps = \<lparr>kind = ArrayObject, props = ps\<rparr>"

definition empty_heap :: heap where
  "empty_heap = (\<lambda>a. plain_object Map.empty)"

text \<open>No getters at all.\<close>

definition no_code :: code where
  "no_code = (\<lambda>g v. js_ret JUndefined)"

text \<open>
  \<^verbatim>\<open>{id: 'ex1', title: 'Hello', starterCode: ''}\<close> at 0,
  \<^verbatim>\<open>{passed: true, output: '', testCases: []}\<close> at 1 with its array at 4,
  \<^verbatim>\<open>{success: true}\<close> at 2,
  \<^verbatim>\<open>{success: true, output: '', executionTime: 12}\<close> at 3,
  \<^verbatim>\<open>{passed: true, output: ''}\<close> at 5.
\<close>

definition minimal_heap :: heap where
  "minimal_heap = empty_heap
     (0 := plain_object [''id'' \<mapsto> Data (JString ''ex1''), ''title'' \<mapsto> Data (JString ''Hello''),
                         ''starterCode'' \<mapsto> Data (JString '''')],
      1 := plain_object [''passed'' \<mapsto> Data (JBoolean True), ''output'' \<mapsto> Data (JString ''''),
                         ''testCases'' \<mapsto> Data (JRef 4)],
      2 := plain_object [''success'' \<mapsto> Data (JBoolean True)],
      3 := plain_object [''success'' \<mapsto> Data (JBoolean True), ''output'' \<mapsto> Data (JString ''''),
                         ''executionTime'' \<mapsto> Data (JNumber (Finite 12))],
      4 := array_object [''length'' \<mapsto> Data (JNumber (Finite 0))],
      5 := plain_object [''passed'' \<mapsto> Data (JBoolean True), ''output'' \<mapsto> Data (JString '''')])"


text \<open>
  Fields that are only checked for presence, holding values of another type than the
  interface declares:
  \<^verbatim>\<open>{id: 'ex1', title: 'Hello', starterCode: 42}\<close> at 0,
  \<^verbatim>\<open>{passed: true, output: 0, testCases: []}\<close> at 1,
  \<^verbatim>\<open>{success: true, output: null, executionTime: 'soon'}\<close> at 3.
\<close>

definition presence_heap :: heap where
  "presence_heap = empty_heap
     (0 := plain_object [''id'' \<mapsto> Data (JString ''ex1''), ''title'' \<mapsto> Data (JString ''Hello''),
                         ''starterCode'' \<mapsto> Data (JNumber (Finite 42))],
      1 := plain_object [''passed'' \<mapsto> Data (JBoolean True), ''output'' \<mapsto> Data (JNumber (Finite 0)),
                         ''testCases'' \<mapsto> Data (JRef 4)],
      3 := plain_object [''success'' \<mapsto> Data (JBoolean True), ''output'' \<mapsto> Data JNull,
                         ''executionTime'' \<mapsto> Data (JString ''soon'')],
      4 := array_object [''length'' \<mapsto> Data (JNumber (Finite 0))])"

text \<open>
  Inputs that differ from those of \<open>minimal_heap\<close> below the top level: an array with an
  element that is no test case, and objects nested in the unchecked fields:
  \<^verbatim>\<open>{id: 'ex2', title: 'Other', starterCode: ['junk']}\<close> at 0,
  \<^verbatim>\<open>{passed: false, output: 5, testCases: ['junk']}\<close> at 1,
  \<^verbatim>\<open>{success: false, data: {...}}\<close> at 2, its \<^verbatim>\<open>data\<close> the object at 1,
  \<^verbatim>\<open>{success: false, output: ['junk'], executionTime: null, testResult: {...}}\<close> at 3.
\<close>

definition nested_heap :: heap where
  "nested_heap = empty_heap
     (0 := plain_object [''id'' \<mapsto> Data (JString ''ex2''), ''title'' \<mapsto> Data (JString ''Other''),
                         ''starterCode'' \<mapsto> Data (JRef 4)],
      1 := plain_object [''passed'' \<mapsto> Data (JBoolean False), ''output'' \<mapsto> Data (JNumber (Finite 5)),
                         ''testCases'' \<mapsto> Data (JRef 4)],
      2 := plain_object [''success'' \<mapsto> Data (JBoolean False), ''data'' \<mapsto> Data (JRef 1)],
      3 := plain_object [''success'' \<mapsto> Data (JBoolean False), ''output'' \<mapsto> Data (JRef 4),
                         ''executionTime'' \<mapsto> Data JNull, ''testResult'' \<mapsto> Data (JRef 1)],
      4 := array_object [''0'' \<mapsto> Data (JString ''junk''), ''length'' \<mapsto> Data (JNumber (Finite 1))])"


text \<open>
  Arrays onto which the keys of a schema have been attached, as
  \<^verbatim>\<open>Object.assign([], {id: 'ex1', title: 'Hello', starterCode: ''})\<close> at 0 does, and likewise
  for the three other schemas at 1, 2 and 3.
\<close>

definition array_heap :: heap where
  "array_heap = empty_heap
     (0 := array_object [''length'' \<mapsto> Data (JNumber (Finite 0)),
                         ''id'' \<mapsto> Data (JString ''ex1''), ''title'' \<mapsto> Data (JString ''Hello''),
                         ''starterCode'' \<mapsto> Data (JString '''')],
      1 := array_object [''length'' \<mapsto> Data (JNumber (Finite 0)),
                         ''passed'' \<mapsto> Data (JBoolean True), ''output'' \<mapsto> Data (JString ''''),
                         ''testCases'' \<mapsto> Data (JRef 4)],
      2 := array_object [''length'' \<mapsto> Data (JNumber (Finite 0)),
                         ''success'' \<mapsto> Data (JBoolean True)],
      3 := array_object [''length'' \<mapsto> Data (JNumber (Finite 0)),
                         ''success'' \<mapsto> Data (JBoolean True), ''output'' \<mapsto> Data (JString ''''),
                         ''executionTime'' \<mapsto> Data (JNumber (Finite 12))],
      4 := array_object [''length'' \<mapsto> Data (JNumber (Finite 0))])"





section \<open>How a guard evaluates\<close>

lemma js_and_apply:
  "js_and a b h = (case a h of (Inl e, h') \<Rightarrow> (Inl e, h')
                   | (Inr x, h') \<Rightarrow> if x then b h' else (Inr False, h'))"
  by (simp add: js_and_def js_bind_def js_ret_def split: prod.splits sum.splits)

text \<open>The chain may be read from either end: \<^verbatim>\<open>(a && b) && c\<close> is \<^verbatim>\<open>a && (b && c)\<close>.\<close>

lemma js_and_assoc: "js_and (js_and a b) c = js_and a (js_and b c)"
  by (rule ext) (simp add: js_and_apply split: prod.splits sum.splits)

lemma js_typeof_string: "js_typeof h v = ''string'' \<longleftrightarrow> (\<exists>s. v = JString s)"
  by (cases v) simp_all

lemma js_typeof_boolean: "js_typeof h v = ''boolean'' \<longleftrightarrow> (\<exists>b. v = JBoolean b)"
  by (cases v) simp_all

text \<open>On anything but an object reference the first two conjuncts already decide.\<close>

lemma isExercise_prim: "(\<And>a. obj \<noteq> JRef a) \<Longrightarrow> isExercise G obj h = (Inr False, h)"
  by (cases obj) (auto simp add: isExercise_def js_and_apply js_pure_def)

lemma isTestResult_prim: "(\<And>a. obj \<noteq> JRef a) \<Longrightarrow> isTestResult G obj h = (Inr False, h)"
  by (cases obj) (auto simp add: isTestResult_def js_and_apply js_pure_def)

lemma isAPIResponse_prim: "(\<And>a. obj \<noteq> JRef a) \<Longrightarrow> isAPIResponse G obj h = (Inr False, h)"
  by (cases obj) (auto simp add: isAPIResponse_def js_and_apply js_pure_def)

lemma isCodeExecutionResult_prim:
  "(\<And>a. obj \<noteq> JRef a) \<Longrightarrow> isCodeExecutionResult G obj h = (Inr False, h)"
  by (cases obj) (auto simp add: isCodeExecutionResult_def js_and_apply js_pure_def)

text \<open>On an object reference: the presence checks, then the reads in order.\<close>

lemma isExercise_ref:
  "isExercise G (JRef a) h =
     (if kind (h a) = FunctionObject \<or> props (h a) ''id'' = None \<or> props (h a) ''title'' = None
         \<or> props (h a) ''starterCode'' = None then (Inr False, h)
      else case js_get G (JRef a) ''id'' h of
             (Inl e, h1) \<Rightarrow> (Inl e, h1)
           | (Inr v, h1) \<Rightarrow>
               if js_typeof h1 v = ''string'' then
                 (case js_get G (JRef a) ''title'' h1 of
                    (Inl e, h2) \<Rightarrow> (Inl e, h2)
                  | (Inr w, h2) \<Rightarrow> (Inr (js_typeof h2 w = ''string''), h2))
               else (Inr False, h1))"
  by (simp add: isExercise_def js_and_apply js_pure_def js_bind_def js_ret_def
      split: prod.splits sum.splits)

lemma isTestResult_ref:
  "isTestResult G (JRef a) h =
     (if kind (h a) = FunctionObject \<or> props (h a) ''passed'' = None \<or> props (h a) ''output'' = None
         \<or> props (h a) ''testCases'' = None then (Inr False, h)
      else case js_get G (JRef a) ''passed'' h of
             (Inl e, h1) \<Rightarrow> (Inl e, h1)
           | (Inr v, h1) \<Rightarrow>
               if js_typeof h1 v = ''boolean'' then
                 (case js_get G (JRef a) ''testCases'' h1 of
                    (Inl e, h2) \<Rightarrow> (Inl e, h2)
                  | (Inr w, h2) \<Rightarrow> (Inr (Array_isArray h2 w), h2))
               else (Inr False, h1))"
  by (simp add: isTestResult_def js_and_apply js_pure_def js_bind_def js_ret_def
      split: prod.splits sum.splits)

lemma isAPIResponse_ref:
  "isAPIResponse G (JRef a) h =
     (if kind (h a) = FunctionObject \<or> props (h a) ''success'' = None then (Inr False, h)
      else case js_get G (JRef a) ''success'' h of
             (Inl e, h') \<Rightarrow> (Inl e, h')
           | (Inr v, h') \<Rightarrow> (Inr (js_typeof h' v = ''boolean''), h'))"
  by (simp add: isAPIResponse_def js_and_apply js_pure_def js_bind_def js_ret_def
      split: prod.splits sum.splits)

lemma isCodeExecutionResult_ref:
  "isCodeExecutionResult G (JRef a) h =
     (if kind (h a) = FunctionObject \<or> props (h a) ''success'' = None
         \<or> props (h a) ''output'' = None \<or> props (h a) ''executionTime'' = None
      then (Inr False, h)
      else case js_get G (JRef a) ''success'' h of
             (Inl e, h') \<Rightarrow> (Inl e, h')
           | (Inr v, h') \<Rightarrow> (Inr (js_typeof h' v = ''boolean''), h'))"
  by (simp add: isCodeExecutionResult_def js_and_apply js_pure_def js_bind_def js_ret_def
      split: prod.splits sum.splits)

lemmas sample_defs = empty_heap_def plain_object_def array_object_def js_ret_def js_throw_def




lemmas guard_ref = isExercise_ref isTestResult_ref isAPIResponse_ref isCodeExecutionResult_ref
lemmas guard_prim = isExercise_prim isTestResult_prim isAPIResponse_prim isCodeExecutionResult_prim



















text \<open>
  The result of a guard is a function of the top level of its input: of \<^verbatim>\<open>typeof\<close>, of
  the presence of the keys and of the types that the reads find.
\<close>

lemma isExercise_view:
  "(fst (isExercise G obj h) = Inr b) =
     (if js_typeof h obj = ''object'' \<and> obj \<noteq> JNull \<and> has_property h obj ''id'' \<and>
         has_property h obj ''title'' \<and> has_property h obj ''starterCode''
      then (case fst (read_type G obj ''id'' h) of
              None \<Rightarrow> False
            | Some (s, i) \<Rightarrow>
                if s = ''string''
                then (case fst (read_type G obj ''title'' (snd (read_type G obj ''id'' h))) of
                        None \<Rightarrow> False
                      | Some (t, j) \<Rightarrow> b = (t = ''string''))
                else \<not> b)
      else \<not> b)"
proof (cases obj)
  case (JRef a)
  show ?thesis
    unfolding JRef
    by (auto simp add: isExercise_ref read_type_def simp del: js_get.simps
        split: prod.splits sum.splits)
qed (auto simp add: isExercise_prim)

lemma isTestResult_view:
  "(fst (isTestResult G obj h) = Inr b) =
     (if js_typeof h obj = ''object'' \<and> obj \<noteq> JNull \<and> has_property h obj ''passed'' \<and>
         has_property h obj ''output'' \<and> has_property h obj ''testCases''
      then (case fst (read_type G obj ''passed'' h) of
              None \<Rightarrow> False
            | Some (s, i) \<Rightarrow>
                if s = ''boolean''
                then (case fst (read_type G obj ''testCases'' (snd (read_type G obj ''passed'' h))) of
                        None \<Rightarrow> False
                      | Some (t, j) \<Rightarrow> b = j)
                else \<not> b)
      else \<not> b)"
proof (cases obj)
  case (JRef a)
  show ?thesis
    unfolding JRef
    by (auto simp add: isTestResult_ref read_type_def simp del: js_get.simps
        split: prod.splits sum.splits)
qed (auto simp add: isTestResult_prim)

lemma isAPIResponse_view:
  "(fst (isAPIResponse G obj h) = Inr b) =
     (if js_typeof h obj = ''object'' \<and> obj \<noteq> JNull \<and> has_property h obj ''success''
      then (case fst (read_type G obj ''success'' h) of
              None \<Rightarrow> False
            | Some (s, i) \<Rightarrow> b = (s = ''boolean''))
      else \<not> b)"
proof (cases obj)
  case (JRef a)
  show ?thesis
    unfolding JRef
    by (auto simp add: isAPIResponse_ref read_type_def simp del: js_get.simps
        split: prod.splits sum.splits)
qed (auto simp add: isAPIResponse_prim)

lemma isCodeExecutionResult_view:
  "(fst (isCodeExecutionResult G obj h) = Inr b) =
     (if js_typeof h obj = ''object'' \<and> obj \<noteq> JNull \<and> has_property h obj ''success'' \<and>
         has_property h obj ''output'' \<and> has_property h obj ''executionTime''
      then (case fst (read_type G obj ''success'' h) of
              None \<Rightarrow> False
            | Some (s, i) \<Rightarrow> b = (s = ''boolean''))
      else \<not> b)"
proof (cases obj)
  case (JRef a)
  show ?thesis
    unfolding JRef
    by (auto simp add: isCodeExecutionResult_ref read_type_def simp del: js_get.simps
        split: prod.splits sum.splits)
qed (auto simp add: isCodeExecutionResult_prim)

lemma isExercise_shallow:
  assumes "top_level G1 h1 o1 [''id'', ''title'', ''starterCode''] [''id'', ''title'']
         = top_level G2 h2 o2 [''id'', ''title'', ''starterCode''] [''id'', ''title'']"
  shows "(fst (isExercise G1 o1 h1) = Inr b) = (fst (isExercise G2 o2 h2) = Inr b)"
  using assms unfolding isExercise_view
  by (auto simp add: top_level_def split: option.splits)

lemma isTestResult_shallow:
  assumes "top_level G1 h1 o1 [''passed'', ''output'', ''testCases''] [''passed'', ''testCases'']
         = top_level G2 h2 o2 [''passed'', ''output'', ''testCases''] [''passed'', ''testCases'']"
  shows "(fst (isTestResult G1 o1 h1) = Inr b) = (fst (isTestResult G2 o2 h2) = Inr b)"
  using assms unfolding isTestResult_view
  by (auto simp add: top_level_def split: option.splits)

lemma isAPIResponse_shallow:
  assumes "top_level G1 h1 o1 [''success''] [''success'']
         = top_level G2 h2 o2 [''success''] [''success'']"
  shows "(fst (isAPIResponse G1 o1 h1) = Inr b) = (fst (isAPIResponse G2 o2 h2) = Inr b)"
  using assms unfolding isAPIResponse_view by (simp add: top_level_def)

lemma isCodeExecutionResult_shallow:
  assumes "top_level G1 h1 o1 [''success'', ''output'', ''executionTime''] [''success'']
         = top_level G2 h2 o2 [''success'', ''output'', ''executionTime''] [''success'']"
  shows "(fst (isCodeExecutionResult G1 o1 h1) = Inr b)
       = (fst (isCodeExecutionResult G2 o2 h2) = Inr b)"
  using assms unfolding isCodeExecutionResult_view by (simp add: top_level_def)


section \<open>Acceptance\<close>

lemma isExercise_accepts:
  "fst (isExercise G obj h) = Inr True \<longleftrightarrow>
      js_typeof h obj = ''object'' \<and> obj \<noteq> JNull \<and>
      has_property h obj ''id'' \<and> has_property h obj ''title'' \<and>
      has_property h obj ''starterCode'' \<and>
      (\<exists>s h1 t h2. js_get G obj ''id'' h = (Inr (JString s), h1) \<and>
                   js_get G obj ''title'' h1 = (Inr (JString t), h2))"
  by (cases obj)
     (simp_all add: isExercise_prim isExercise_ref js_typeof_string split: prod.splits sum.splits)

lemma isTestResult_accepts:
  "fst (isTestResult G obj h) = Inr True \<longleftrightarrow>
      js_typeof h obj = ''object'' \<and> obj \<noteq> JNull \<and>
      has_property h obj ''passed'' \<and> has_property h obj ''output'' \<and>
      has_property h obj ''testCases'' \<and>
      (\<exists>b h1 w h2. js_get G obj ''passed'' h = (Inr (JBoolean b), h1) \<and>
                   js_get G obj ''testCases'' h1 = (Inr w, h2) \<and> Array_isArray h2 w)"
  by (cases obj)
     (simp_all add: isTestResult_prim isTestResult_ref js_typeof_boolean split: prod.splits sum.splits)

lemma isAPIResponse_accepts:
  "fst (isAPIResponse G obj h) = Inr True \<longleftrightarrow>
      js_typeof h obj = ''object'' \<and> obj \<noteq> JNull \<and> has_property h obj ''success'' \<and>
      (\<exists>b h1. js_get G obj ''success'' h = (Inr (JBoolean b), h1))"
  by (cases obj)
     (simp_all add: isAPIResponse_prim isAPIResponse_ref js_typeof_boolean split: prod.splits sum.splits)

lemma isCodeExecutionResult_accepts:
  "fst (isCodeExecutionResult G obj h) = Inr True \<longleftrightarrow>
      js_typeof h obj = ''object'' \<and> obj \<noteq> JNull \<and>
      has_property h obj ''success'' \<and> has_property h obj ''output'' \<and>
      has_property h obj ''executionTime'' \<and>
      (\<exists>b h1. js_get G obj ''success'' h = (Inr (JBoolean b), h1))"
  by (cases obj)
     (simp_all add: isCodeExecutionResult_prim isCodeExecutionResult_ref js_typeof_boolean
        split: prod.splits sum.splits)

lemma minimal_accepted:
  "isExercise G (JRef 0) minimal_heap = (Inr True, minimal_heap)"
  "isTestResult G (JRef 1) minimal_heap = (Inr True, minimal_heap)"
  "isAPIResponse G (JRef 2) minimal_heap = (Inr True, minimal_heap)"
  "isCodeExecutionResult G (JRef 3) minimal_heap = (Inr True, minimal_heap)"
  "isTestResult G (JRef 5) minimal_heap = (Inr False, minimal_heap)"
  by (simp_all add: isExercise_ref isTestResult_ref isAPIResponse_ref isCodeExecutionResult_ref
      minimal_heap_def sample_defs)

lemma guards_reject_missing_key:
  "\<not> has_property h obj ''id'' \<or> \<not> has_property h obj ''title'' \<or>
   \<not> has_property h obj ''starterCode'' \<Longrightarrow> isExercise G obj h = (Inr False, h)"
  "\<not> has_property h obj ''passed'' \<or> \<not> has_property h obj ''output'' \<or>
   \<not> has_property h obj ''testCases'' \<Longrightarrow> isTestResult G obj h = (Inr False, h)"
  "\<not> has_property h obj ''success'' \<Longrightarrow> isAPIResponse G obj h = (Inr False, h)"
  "\<not> has_property h obj ''success'' \<or> \<not> has_property h obj ''output'' \<or>
   \<not> has_property h obj ''executionTime'' \<Longrightarrow> isCodeExecutionResult G obj h = (Inr False, h)"
  by (cases obj; auto simp add: guard_ref guard_prim)+

text \<open>
  C1. Each guard returns true exactly when \<^verbatim>\<open>typeof\<close> of the input is \<^verbatim>\<open>'object'\<close>, the
  input is not \<^verbatim>\<open>null\<close>, every required key of the schema is present (Exercise: id, title,
  starterCode; TestResult: passed, output, testCases; APIResponse: success;
  CodeExecutionResult: success, output, executionTime) and the reads of the type-checked
  fields, in the order of the source, give values of the checked types (id and title
  strings; passed a boolean and testCases an array; success a boolean). An input that
  lacks a required key is rejected. The minimal objects of \<open>minimal_heap\<close> are accepted,
  and \<^verbatim>\<open>{passed: true, output: ''}\<close>, which lacks testCases, is rejected.
\<close>

theorem guards_accept_iff:
  "(fst (isExercise G obj h) = Inr True \<longleftrightarrow>
      js_typeof h obj = ''object'' \<and> obj \<noteq> JNull \<and>
      has_property h obj ''id'' \<and> has_property h obj ''title'' \<and>
      has_property h obj ''starterCode'' \<and>
      (\<exists>s h1 t h2. js_get G obj ''id'' h = (Inr (JString s), h1) \<and>
                   js_get G obj ''title'' h1 = (Inr (JString t), h2))) \<and>
   (fst (isTestResult G obj h) = Inr True \<longleftrightarrow>
      js_typeof h obj = ''object'' \<and> obj \<noteq> JNull \<and>
      has_property h obj ''passed'' \<and> has_property h obj ''output'' \<and>
      has_property h obj ''testCases'' \<and>
      (\<exists>b h1 w h2. js_get G obj ''passed'' h = (Inr (JBoolean b), h1) \<and>
                   js_get G obj ''testCases'' h1 = (Inr w, h2) \<and> Array_isArray h2 w)) \<and>
   (fst (isAPIResponse G obj h) = Inr True \<longleftrightarrow>
      js_typeof h obj = ''object'' \<and> obj \<noteq> JNull \<and> has_property h obj ''success'' \<and>
      (\<exists>b h1. js_get G obj ''success'' h = (Inr (JBoolean b), h1))) \<and>
   (fst (isCodeExecutionResult G obj h) = Inr True \<longleftrightarrow>
      js_typeof h obj = ''object'' \<and> obj \<noteq> JNull \<and>
      has_property h obj ''success'' \<and> has_property h obj ''output'' \<and>
      has_property h obj ''executionTime'' \<and>
      (\<exists>b h1. js_get G obj ''success'' h = (Inr (JBoolean b), h1))) \<and>
   (\<not> has_property h obj ''id'' \<or> \<not> has_property h obj ''title'' \<or>
      \<not> has_property h obj ''starterCode'' \<longrightarrow> isExercise G obj h = (Inr False, h)) \<and>
   (\<not> has_property h obj ''passed'' \<or> \<not> has_property h obj ''output'' \<or>
      \<not> has_property h obj ''testCases'' \<longrightarrow> isTestResult G obj h = (Inr False, h)) \<and>
   (\<not> has_property h obj ''success'' \<longrightarrow> isAPIResponse G obj h = (Inr False, h)) \<and>
   (\<not> has_property h obj ''success'' \<or> \<not> has_property h obj ''output'' \<or>
      \<not> has_property h obj ''executionTime'' \<longrightarrow>
      isCodeExecutionResult G obj h = (Inr False, h)) \<and>
   isExercise G (JRef 0) minimal_heap = (Inr True, minimal_heap) \<and>
   isTestResult G (JRef 1) minimal_heap = (Inr True, minimal_heap) \<and>
   isAPIResponse G (JRef 2) minimal_heap = (Inr True, minimal_heap) \<and>
   isCodeExecutionResult G (JRef 3) minimal_heap = (Inr True, minimal_heap) \<and>
   isTestResult G (JRef 5) minimal_heap = (Inr False, minimal_heap)"
  using isExercise_accepts [of G obj h] isTestResult_accepts [of G obj h]
    isAPIResponse_accepts [of G obj h] isCodeExecutionResult_accepts [of G obj h]
    minimal_accepted [of G] guards_reject_missing_key [of h obj G]
  by blast

text \<open>
  The object at 5 of \<open>minimal_heap\<close>, \<^verbatim>\<open>{passed: true, output: ''}\<close>, lacks a required key
  of each of the four schemas.
\<close>

theorem guards_accept_iff_witness:
  "\<not> has_property minimal_heap (JRef 5) ''id'' \<and>
   isExercise no_code (JRef 5) minimal_heap = (Inr False, minimal_heap) \<and>
   \<not> has_property minimal_heap (JRef 5) ''testCases'' \<and>
   isTestResult no_code (JRef 5) minimal_heap = (Inr False, minimal_heap) \<and>
   \<not> has_property minimal_heap (JRef 5) ''success'' \<and>
   isAPIResponse no_code (JRef 5) minimal_heap = (Inr False, minimal_heap) \<and>
   isCodeExecutionResult no_code (JRef 5) minimal_heap = (Inr False, minimal_heap)"
proof -
  have "\<not> has_property minimal_heap (JRef 5) ''id''"
    "\<not> has_property minimal_heap (JRef 5) ''testCases''"
    "\<not> has_property minimal_heap (JRef 5) ''success''"
    by (simp_all add: minimal_heap_def sample_defs)
  then show ?thesis
    using guards_accept_iff [of no_code "JRef 5" minimal_heap] by blast
qed

section \<open>Rejection\<close>

lemma guards_reject_non_object:
  assumes "js_typeof h obj \<noteq> ''object'' \<or> obj = JNull"
  shows "isExercise G obj h = (Inr False, h)" "isTestResult G obj h = (Inr False, h)"
    "isAPIResponse G obj h = (Inr False, h)" "isCodeExecutionResult G obj h = (Inr False, h)"
  using assms by (cases obj; simp add: guard_ref guard_prim split: if_splits)+

text \<open>
  C2. On an input that is not an object (\<^verbatim>\<open>typeof\<close> is not \<^verbatim>\<open>'object'\<close>, or the input is
  \<^verbatim>\<open>null\<close>: so \<^verbatim>\<open>null\<close>, \<^verbatim>\<open>undefined\<close>, every number and every string) each of the four
  guards returns false, and so does each guard on an array that lacks one of its required
  keys. In particular \<^verbatim>\<open>isExercise(null)\<close> is false.
\<close>

theorem non_objects_rejected:
  "(js_typeof h obj \<noteq> ''object'' \<or> obj = JNull \<longrightarrow>
      isExercise G obj h = (Inr False, h) \<and> isTestResult G obj h = (Inr False, h) \<and>
      isAPIResponse G obj h = (Inr False, h) \<and>
      isCodeExecutionResult G obj h = (Inr False, h)) \<and>
   (kind (h a) = ArrayObject \<and>
      (props (h a) ''id'' = None \<or> props (h a) ''title'' = None \<or>
       props (h a) ''starterCode'' = None) \<longrightarrow>
      isExercise G (JRef a) h = (Inr False, h)) \<and>
   (kind (h a) = ArrayObject \<and>
      (props (h a) ''passed'' = None \<or> props (h a) ''output'' = None \<or>
       props (h a) ''testCases'' = None) \<longrightarrow>
      isTestResult G (JRef a) h = (Inr False, h)) \<and>
   (kind (h a) = ArrayObject \<and> props (h a) ''success'' = None \<longrightarrow>
      isAPIResponse G (JRef a) h = (Inr False, h)) \<and>
   (kind (h a) = ArrayObject \<and>
      (props (h a) ''success'' = None \<or> props (h a) ''output'' = None \<or>
       props (h a) ''executionTime'' = None) \<longrightarrow>
      isCodeExecutionResult G (JRef a) h = (Inr False, h)) \<and>
   isExercise G JNull h = (Inr False, h) \<and> isExercise G JUndefined h = (Inr False, h) \<and>
   isExercise G (JNumber n) h = (Inr False, h) \<and> isExercise G (JString s) h = (Inr False, h)"
proof -
  have "js_typeof h obj \<noteq> ''object'' \<or> obj = JNull \<Longrightarrow>
      isExercise G obj h = (Inr False, h) \<and> isTestResult G obj h = (Inr False, h) \<and>
      isAPIResponse G obj h = (Inr False, h) \<and>
      isCodeExecutionResult G obj h = (Inr False, h)"
    by (simp add: guards_reject_non_object)
  moreover have "isExercise G JNull h = (Inr False, h) \<and> isExercise G JUndefined h = (Inr False, h) \<and>
   isExercise G (JNumber n) h = (Inr False, h) \<and> isExercise G (JString s) h = (Inr False, h)"
    by (simp add: isExercise_prim)
  ultimately show ?thesis
    by (auto simp add: guard_ref)
qed

text \<open>
  The number 3, and the empty array at 4 of \<open>minimal_heap\<close>, which has none of the keys.
\<close>

theorem non_objects_rejected_witness:
  "js_typeof minimal_heap (JNumber (Finite 3)) \<noteq> ''object'' \<and>
   isExercise no_code (JNumber (Finite 3)) minimal_heap = (Inr False, minimal_heap) \<and>
   isTestResult no_code (JNumber (Finite 3)) minimal_heap = (Inr False, minimal_heap) \<and>
   isAPIResponse no_code (JNumber (Finite 3)) minimal_heap = (Inr False, minimal_heap) \<and>
   isCodeExecutionResult no_code (JNumber (Finite 3)) minimal_heap = (Inr False, minimal_heap) \<and>
   kind (minimal_heap 4) = ArrayObject \<and> props (minimal_heap 4) ''id'' = None \<and>
   props (minimal_heap 4) ''passed'' = None \<and> props (minimal_heap 4) ''success'' = None \<and>
   isExercise no_code (JRef 4) minimal_heap = (Inr False, minimal_heap) \<and>
   isTestResult no_code (JRef 4) minimal_heap = (Inr False, minimal_heap) \<and>
   isAPIResponse no_code (JRef 4) minimal_heap = (Inr False, minimal_heap) \<and>
   isCodeExecutionResult no_code (JRef 4) minimal_heap = (Inr False, minimal_heap)"
  using non_objects_rejected [of minimal_heap "JNumber (Finite 3)" no_code 4]
  by (simp add: minimal_heap_def sample_defs)



section \<open>Fields beyond the checked ones\<close>




text \<open>
  C5. A field that is only checked for presence (starterCode for \<^verbatim>\<open>isExercise\<close>, output
  for \<^verbatim>\<open>isTestResult\<close>, output and executionTime for \<^verbatim>\<open>isCodeExecutionResult\<close>) may
  hold any property at all: with the type-checked fields correct, the guard returns true
  whatever the type of the value under the presence-checked key.
\<close>

theorem presence_only_fields_unchecked:
  "(kind (h a) \<noteq> FunctionObject \<and> props (h a) ''id'' = Some (Data (JString s)) \<and>
      props (h a) ''title'' = Some (Data (JString t)) \<and> props (h a) ''starterCode'' = Some p \<longrightarrow>
      isExercise G (JRef a) h = (Inr True, h)) \<and>
   (kind (h a) \<noteq> FunctionObject \<and> props (h a) ''passed'' = Some (Data (JBoolean b)) \<and>
      props (h a) ''output'' = Some p \<and> props (h a) ''testCases'' = Some (Data w) \<and>
      Array_isArray h w \<longrightarrow>
      isTestResult G (JRef a) h = (Inr True, h)) \<and>
   (kind (h a) \<noteq> FunctionObject \<and> props (h a) ''success'' = Some (Data (JBoolean b)) \<and>
      props (h a) ''output'' = Some p \<and> props (h a) ''executionTime'' = Some q \<longrightarrow>
      isCodeExecutionResult G (JRef a) h = (Inr True, h))"
  by (simp add: guard_ref js_ret_def)

text \<open>
  The objects of \<open>presence_heap\<close>: a numeric starterCode, a numeric output, and an
  executionTime that is a string beside an output that is \<^verbatim>\<open>null\<close>.
\<close>

theorem presence_only_fields_unchecked_witness:
  "kind (presence_heap 0) \<noteq> FunctionObject \<and>
   props (presence_heap 0) ''id'' = Some (Data (JString ''ex1'')) \<and>
   props (presence_heap 0) ''title'' = Some (Data (JString ''Hello'')) \<and>
   props (presence_heap 0) ''starterCode'' = Some (Data (JNumber (Finite 42))) \<and>
   isExercise no_code (JRef 0) presence_heap = (Inr True, presence_heap) \<and>
   kind (presence_heap 1) \<noteq> FunctionObject \<and>
   props (presence_heap 1) ''passed'' = Some (Data (JBoolean True)) \<and>
   props (presence_heap 1) ''output'' = Some (Data (JNumber (Finite 0))) \<and>
   props (presence_heap 1) ''testCases'' = Some (Data (JRef 4)) \<and>
   Array_isArray presence_heap (JRef 4) \<and>
   isTestResult no_code (JRef 1) presence_heap = (Inr True, presence_heap) \<and>
   kind (presence_heap 3) \<noteq> FunctionObject \<and>
   props (presence_heap 3) ''success'' = Some (Data (JBoolean True)) \<and>
   props (presence_heap 3) ''output'' = Some (Data JNull) \<and>
   props (presence_heap 3) ''executionTime'' = Some (Data (JString ''soon'')) \<and>
   isCodeExecutionResult no_code (JRef 3) presence_heap = (Inr True, presence_heap)"
  using presence_only_fields_unchecked
      [of presence_heap 0 "''ex1''" "''Hello''" "Data (JNumber (Finite 42))" no_code]
    presence_only_fields_unchecked
      [of presence_heap 1 _ _ "Data (JNumber (Finite 0))" no_code True "JRef 4"]
    presence_only_fields_unchecked
      [of presence_heap 3 _ _ "Data JNull" no_code True _ "Data (JString ''soon'')"]
  by (simp add: presence_heap_def sample_defs)

section \<open>Exceptions and repeated calls\<close>







section \<open>Shallow checks\<close>

text \<open>
  C8. The decision is made at the top level. Two inputs that agree there (on what
  \<^verbatim>\<open>typeof\<close> says of them and on being \<^verbatim>\<open>null\<close>, on the presence of the required keys,
  and on the types that the reads of the type-checked fields find) get the same result
  from a guard, whatever the two stores hold below: the elements of testCases, the
  contents of data, a nested testResult or environment.
\<close>

theorem guards_shallow:
  "(top_level G1 h1 o1 [''id'', ''title'', ''starterCode''] [''id'', ''title'']
      = top_level G2 h2 o2 [''id'', ''title'', ''starterCode''] [''id'', ''title''] \<longrightarrow>
      (fst (isExercise G1 o1 h1) = Inr b) = (fst (isExercise G2 o2 h2) = Inr b)) \<and>
   (top_level G1 h1 o1 [''passed'', ''output'', ''testCases''] [''passed'', ''testCases'']
      = top_level G2 h2 o2 [''passed'', ''output'', ''testCases''] [''passed'', ''testCases''] \<longrightarrow>
      (fst (isTestResult G1 o1 h1) = Inr b) = (fst (isTestResult G2 o2 h2) = Inr b)) \<and>
   (top_level G1 h1 o1 [''success''] [''success'']
      = top_level G2 h2 o2 [''success''] [''success''] \<longrightarrow>
      (fst (isAPIResponse G1 o1 h1) = Inr b) = (fst (isAPIResponse G2 o2 h2) = Inr b)) \<and>
   (top_level G1 h1 o1 [''success'', ''output'', ''executionTime''] [''success'']
      = top_level G2 h2 o2 [''success'', ''output'', ''executionTime''] [''success''] \<longrightarrow>
      (fst (isCodeExecutionResult G1 o1 h1) = Inr b)
        = (fst (isCodeExecutionResult G2 o2 h2) = Inr b))"
  using isExercise_shallow [of G1 h1 o1 G2 h2 o2 b] isTestResult_shallow [of G1 h1 o1 G2 h2 o2 b]
    isAPIResponse_shallow [of G1 h1 o1 G2 h2 o2 b]
    isCodeExecutionResult_shallow [of G1 h1 o1 G2 h2 o2 b]
  by blast

text \<open>
  The objects of \<open>minimal_heap\<close> against those of \<open>nested_heap\<close>, whose arrays hold an
  element that is no test case and whose unchecked fields hold nested objects.
\<close>

theorem guards_shallow_witness:
  "top_level no_code minimal_heap (JRef 0) [''id'', ''title'', ''starterCode''] [''id'', ''title'']
     = top_level no_code nested_heap (JRef 0) [''id'', ''title'', ''starterCode'']
         [''id'', ''title''] \<and>
   (fst (isExercise no_code (JRef 0) minimal_heap) = Inr True)
     = (fst (isExercise no_code (JRef 0) nested_heap) = Inr True) \<and>
   top_level no_code minimal_heap (JRef 1) [''passed'', ''output'', ''testCases'']
       [''passed'', ''testCases'']
     = top_level no_code nested_heap (JRef 1) [''passed'', ''output'', ''testCases'']
         [''passed'', ''testCases''] \<and>
   props (minimal_heap 4) ''0'' = None \<and>
   props (nested_heap 4) ''0'' = Some (Data (JString ''junk'')) \<and>
   (fst (isTestResult no_code (JRef 1) minimal_heap) = Inr True)
     = (fst (isTestResult no_code (JRef 1) nested_heap) = Inr True) \<and>
   top_level no_code minimal_heap (JRef 2) [''success''] [''success'']
     = top_level no_code nested_heap (JRef 2) [''success''] [''success''] \<and>
   props (minimal_heap 2) ''data'' = None \<and> props (nested_heap 2) ''data'' = Some (Data (JRef 1)) \<and>
   (fst (isAPIResponse no_code (JRef 2) minimal_heap) = Inr True)
     = (fst (isAPIResponse no_code (JRef 2) nested_heap) = Inr True) \<and>
   top_level no_code minimal_heap (JRef 3) [''success'', ''output'', ''executionTime'']
       [''success'']
     = top_level no_code nested_heap (JRef 3) [''success'', ''output'', ''executionTime'']
         [''success''] \<and>
   (fst (isCodeExecutionResult no_code (JRef 3) minimal_heap) = Inr True)
     = (fst (isCodeExecutionResult no_code (JRef 3) nested_heap) = Inr True)"
proof -
  have v: "top_level no_code minimal_heap (JRef 0) [''id'', ''title'', ''starterCode'']
        [''id'', ''title'']
      = top_level no_code nested_heap (JRef 0) [''id'', ''title'', ''starterCode'']
          [''id'', ''title'']"
    "top_level no_code minimal_heap (JRef 1) [''passed'', ''output'', ''testCases'']
        [''passed'', ''testCases'']
      = top_level no_code nested_heap (JRef 1) [''passed'', ''output'', ''testCases'']
          [''passed'', ''testCases'']"
    "top_level no_code minimal_heap (JRef 2) [''success''] [''success'']
      = top_level no_code nested_heap (JRef 2) [''success''] [''success'']"
    "top_level no_code minimal_heap (JRef 3) [''success'', ''output'', ''executionTime'']
        [''success'']
      = top_level no_code nested_heap (JRef 3) [''success'', ''output'', ''executionTime'']
          [''success'']"
    by (simp_all add: top_level_def read_type_def minimal_heap_def nested_heap_def sample_defs)
  have n: "props (minimal_heap 4) ''0'' = None"
    "props (nested_heap 4) ''0'' = Some (Data (JString ''junk''))"
    "props (minimal_heap 2) ''data'' = None" "props (nested_heap 2) ''data'' = Some (Data (JRef 1))"
    by (simp_all add: minimal_heap_def nested_heap_def sample_defs)
  show ?thesis
    using v n
      guards_shallow [of no_code minimal_heap "JRef 0" no_code nested_heap "JRef 0" True]
      guards_shallow [of no_code minimal_heap "JRef 1" no_code nested_heap "JRef 1" True]
      guards_shallow [of no_code minimal_heap "JRef 2" no_code nested_heap "JRef 2" True]
      guards_shallow [of no_code minimal_heap "JRef 3" no_code nested_heap "JRef 3" True]
    by (simp only: simp_thms)
qed

section \<open>What counts as present, and what counts as an object\<close>



text \<open>
  C10. Arrays are not excluded: on an array onto which the required keys have been
  attached, with correctly typed values under the type-checked ones, each guard returns
  true, as it does on a plain object.
\<close>

theorem arrays_with_keys_accepted:
  "(kind (h a) = ArrayObject \<and> props (h a) ''id'' = Some (Data (JString s)) \<and>
      props (h a) ''title'' = Some (Data (JString t)) \<and> props (h a) ''starterCode'' = Some p \<longrightarrow>
      isExercise G (JRef a) h = (Inr True, h)) \<and>
   (kind (h a) = ArrayObject \<and> props (h a) ''passed'' = Some (Data (JBoolean b)) \<and>
      props (h a) ''output'' = Some p \<and> props (h a) ''testCases'' = Some (Data w) \<and>
      Array_isArray h w \<longrightarrow>
      isTestResult G (JRef a) h = (Inr True, h)) \<and>
   (kind (h a) = ArrayObject \<and> props (h a) ''success'' = Some (Data (JBoolean b)) \<longrightarrow>
      isAPIResponse G (JRef a) h = (Inr True, h)) \<and>
   (kind (h a) = ArrayObject \<and> props (h a) ''success'' = Some (Data (JBoolean b)) \<and>
      props (h a) ''output'' = Some p \<and> props (h a) ''executionTime'' = Some q \<longrightarrow>
      isCodeExecutionResult G (JRef a) h = (Inr True, h))"
  by (simp add: guard_ref js_ret_def)

text \<open>
  The arrays of \<open>array_heap\<close>.
\<close>

theorem arrays_with_keys_accepted_witness:
  "kind (array_heap 0) = ArrayObject \<and>
   props (array_heap 0) ''id'' = Some (Data (JString ''ex1'')) \<and>
   props (array_heap 0) ''title'' = Some (Data (JString ''Hello'')) \<and>
   props (array_heap 0) ''starterCode'' = Some (Data (JString '''')) \<and>
   isExercise no_code (JRef 0) array_heap = (Inr True, array_heap) \<and>
   kind (array_heap 1) = ArrayObject \<and>
   props (array_heap 1) ''passed'' = Some (Data (JBoolean True)) \<and>
   props (array_heap 1) ''output'' = Some (Data (JString '''')) \<and>
   props (array_heap 1) ''testCases'' = Some (Data (JRef 4)) \<and>
   Array_isArray array_heap (JRef 4) \<and>
   isTestResult no_code (JRef 1) array_heap = (Inr True, array_heap) \<and>
   kind (array_heap 2) = ArrayObject \<and>
   props (array_heap 2) ''success'' = Some (Data (JBoolean True)) \<and>
   isAPIResponse no_code (JRef 2) array_heap = (Inr True, array_heap) \<and>
   kind (array_heap 3) = ArrayObject \<and>
   props (array_heap 3) ''success'' = Some (Data (JBoolean True)) \<and>
   props (array_heap 3) ''output'' = Some (Data (JString '''')) \<and>
   props (array_heap 3) ''executionTime'' = Some (Data (JNumber (Finite 12))) \<and>
   isCodeExecutionResult no_code (JRef 3) array_heap = (Inr True, array_heap)"
  using arrays_with_keys_accepted
      [of array_heap 0 "''ex1''" "''Hello''" "Data (JString '''')" no_code]
    arrays_with_keys_accepted
      [of array_heap 1 _ _ "Data (JString '''')" no_code True "JRef 4"]
    arrays_with_keys_accepted [of array_heap 2 _ _ _ no_code True]
    arrays_with_keys_accepted
      [of array_heap 3 _ _ "Data (JString '''')" no_code True _ "Data (JNumber (Finite 12))"]
  by (simp add: array_heap_def sample_defs)

end
